theory Spec2Isabelle
  imports Main "HOL-Library.FSet" "HOL-Library.Finite_Map"
begin

section \<open>The chisel server: admission and authentication (server/server.go)\<close>

text \<open>
  The development embeds \<^verbatim>\<open>server/server.go\<close> of package \<^verbatim>\<open>chserver\<close>:
  \<^verbatim>\<open>NewServer\<close>, \<^verbatim>\<open>authUser\<close>, \<^verbatim>\<open>AddUser\<close>, \<^verbatim>\<open>DeleteUser\<close>, \<^verbatim>\<open>ResetUsers\<close> and
  \<^verbatim>\<open>authUserURL\<close>. Go strings and byte slices are \<open>string\<close> (byte lists); a Go
  \<^verbatim>\<open>error\<close> is a value of the datatype \<open>error\<close>, \<^verbatim>\<open>nil\<close> is \<open>None\<close>. Mutation of the
  server is explicit state passing; every call the code makes on the logger, the user
  index, the session map, the HTTP client and standard output is appended to a trace.
\<close>

subsection \<open>Data\<close>

text \<open>\<^verbatim>\<open>net/url.URL\<close>: the fields the server reads or writes, and the rest of the URL.\<close>

record URL =
  Scheme :: string
  Host :: string
  Path :: string
  RawQuery :: string

text \<open>
  A Go error. \<open>errors_New m\<close> is \<^verbatim>\<open>errors.New(m)\<close>; \<open>Errorf f u\<close> is the logger's
  \<^verbatim>\<open>Errorf(f, u)\<close> with its still unformatted argument. Two errors are equal here when
  they are built the same way from the same message (pointer identity is not modelled).
\<close>

datatype error = errors_New string | Errorf string URL

text \<open>\<^verbatim>\<open>settings.User\<close>; \<open>'r\<close> is the type of compiled regular expressions (\<^verbatim>\<open>*regexp.Regexp\<close>).\<close>

record 'r User =
  Name :: string
  Pass :: string
  Addrs :: "'r list"

text \<open>
  Modelled from the spec: \<^verbatim>\<open>settings.Users\<close> and \<^verbatim>\<open>settings.UserIndex\<close> (package
  \<^verbatim>\<open>share/settings\<close>) are not part of the source at hand. The spec's CredentialStore is a
  mapping from user name to User with unique names, where an add under an existing name
  replaces the entry; its SessionRegistry is a mapping from session identifier to the
  identity bound to it, at most one entry per identifier, the last writer winning. Both
  are finite maps, as a Go map is.
\<close>

type_synonym 'r Users = "(string, 'r User) fmap"

definition NewUsers :: "'r Users" where
  "NewUsers = fmempty"

definition Len :: "'r Users \<Rightarrow> nat" where
  "Len us = fcard (fmdom us)"

definition Get :: "'r Users \<Rightarrow> string \<Rightarrow> 'r User option" where
  "Get us key = fmlookup us key"

definition Set :: "'r Users \<Rightarrow> string \<Rightarrow> 'r User \<Rightarrow> 'r Users" where
  "Set us key user = fmupd key user us"

definition Del :: "'r Users \<Rightarrow> string \<Rightarrow> 'r Users" where
  "Del us key = fmdrop key us"

definition UsersAddUser :: "'r Users \<Rightarrow> 'r User \<Rightarrow> 'r Users" where
  "UsersAddUser us user = Set us (Name user) user"

definition Reset :: "'r Users \<Rightarrow> 'r User list \<Rightarrow> 'r Users" where
  "Reset us users = foldl (\<lambda>m u. Set m (Name u) u) NewUsers users"

text \<open>\<^verbatim>\<open>Config\<close>; \<open>'t\<close> is the type \<^verbatim>\<open>TLSConfig\<close>, declared outside this file.\<close>

record 't Config =
  KeySeed :: string
  AuthFile :: string
  AuthURL :: string
  AuthURLCaCert :: string
  AuthURLAssumeUniqueUsernames :: bool
  Auth :: string
  Proxy :: string
  Socks5 :: bool
  Reverse :: bool
  KeepAlive :: int
  TLS :: 't

text \<open>\<^verbatim>\<open>http.Request\<close>: the fields the director touches, the method and the headers.\<close>

record Request =
  Method :: string
  ReqURL :: URL
  ReqHost :: string
  Header :: "(string \<times> string) list"

text \<open>\<^verbatim>\<open>httputil.ReverseProxy\<close>: the director installed by \<^verbatim>\<open>NewServer\<close>.\<close>

record ReverseProxy =
  Director :: "Request \<Rightarrow> Request"

text \<open>
  \<^verbatim>\<open>http.Client\<close> with its transport's \<^verbatim>\<open>TLSClientConfig.RootCAs\<close>: the pool is the list
  of certificates it holds.
\<close>

record Client =
  RootCAs :: "string list"

text \<open>The password callback installed in \<^verbatim>\<open>ssh.ServerConfig\<close> is one of two methods.\<close>

datatype Callback = CallAuthUser | CallAuthUserURL

record ServerConfig =
  ServerVersion :: string
  PasswordCallback :: Callback
  HostKeys :: "string list"

text \<open>
  \<^verbatim>\<open>Server\<close>. The embedded logger contributes its \<^verbatim>\<open>Info\<close> flag; the \<^verbatim>\<open>httpServer\<close> handle
  is opaque and plays no part in the functions embedded here.
\<close>

record ('r, 't) Server =
  Info :: bool
  config :: "'t Config"
  fingerprint :: string
  reverseProxy :: "ReverseProxy option"
  sessCount :: int
  sessions :: "'r Users"
  sshConfig :: "ServerConfig option"
  users :: "'r Users"
  authURL :: string
  authURLClient :: "Client option"

text \<open>\<^verbatim>\<open>ssh.ConnMetadata\<close>: what \<^verbatim>\<open>User()\<close> and \<^verbatim>\<open>SessionID()\<close> return.\<close>

record ConnMetadata =
  conn_User :: string
  conn_SessionID :: string

text \<open>\<^verbatim>\<open>authUserData\<close>, the JSON body posted to the token service.\<close>

record authUserData =
  Username :: string
  Password :: string

text \<open>
  \<^verbatim>\<open>http.Response\<close>: the status code, and what \<^verbatim>\<open>ioutil.ReadAll(resp.Body)\<close> yields.
\<close>

record Response =
  StatusCode :: int
  Body :: "error + string"

text \<open>The calls the code makes on its collaborators, in the order it makes them.\<close>

datatype 'r event =
    Debugf string "string list"
  | DebugfErr error
  | Infof string "string list"
  | Println string
  | Printf string "'r User"
  | UsersLen
  | UsersGet string
  | UsersLoadUserIndex
  | SessionsSet string "'r User"
  | ClientPost string string string

text \<open>
  What a call of a method does: it returns its error result (\<open>None\<close> is \<^verbatim>\<open>nil\<close>; the
  \<^verbatim>\<open>*ssh.Permissions\<close> result is \<^verbatim>\<open>nil\<close> on every path) or it panics.
\<close>

datatype ret = Return "error option" | Panic string

text \<open>
  The libraries and the outside world, as far as the code calls them: every field is
  the function of that name, a parameter of the model.
\<close>

record 'r env =
  regexp_Compile :: "string \<Rightarrow> error + 'r"
  UserAllowAll :: 'r
  ParseAuth :: "string \<Rightarrow> string \<times> string"
  LoadUsers :: "'r Users \<Rightarrow> string \<Rightarrow> error option \<times> 'r Users"
  LoadUserIndex :: "'r Users \<Rightarrow> error option \<times> 'r Users"
  GenerateKey :: "string \<Rightarrow> error + string"
  ParsePrivateKey :: "string \<Rightarrow> error + string"
  PublicKey :: "string \<Rightarrow> string"
  FingerprintKey :: "string \<Rightarrow> string"
  ProtocolVersion :: string
  SystemCertPool :: "string list option"
  ReadFile :: "string \<Rightarrow> error + string"
  AppendCertsFromPEM :: "string list \<Rightarrow> string \<Rightarrow> string list \<times> bool"
  url_Parse :: "string \<Rightarrow> error + URL"
  json_Marshal :: "authUserData \<Rightarrow> error + string"
  json_Unmarshal :: "string \<Rightarrow> error option"
  client_Post :: "Client \<Rightarrow> string \<Rightarrow> string \<Rightarrow> string \<Rightarrow> error + Response"

subsection \<open>authUser\<close>

definition authError :: error where
  "authError = errors_New ''Invalid authentication for username: %s''"

definition authUser ::
  "('r, 't) Server \<Rightarrow> ConnMetadata \<Rightarrow> string \<Rightarrow> ret \<times> ('r, 't) Server \<times> 'r event list" where
  "authUser s c password =
    (if Len (users s) = 0 then (Return None, s, [UsersLen])
     else
       let n = conn_User c in
       (case Get (users s) n of
          None \<Rightarrow>
            (Return (Some authError), s,
             [UsersLen, UsersGet n, Debugf ''Login failed for user: %s'' [n]])
        | Some user \<Rightarrow>
            if Pass user \<noteq> password then
              (Return (Some authError), s,
               [UsersLen, UsersGet n, Debugf ''Login failed for user: %s'' [n]])
            else
              (Return None,
               s\<lparr>sessions := Set (sessions s) (conn_SessionID c) user\<rparr>,
               [UsersLen, UsersGet n, SessionsSet (conn_SessionID c) user])))"

subsection \<open>AddUser, DeleteUser, ResetUsers\<close>

text \<open>
  The loop of \<^verbatim>\<open>AddUser\<close> over \<^verbatim>\<open>addrs\<close>: the accumulator is \<^verbatim>\<open>authorizedAddrs\<close>, the
  first pattern that does not compile ends the loop with its error.
\<close>

fun compileAddrs :: "'r env \<Rightarrow> 'r list \<Rightarrow> string list \<Rightarrow> error + 'r list" where
  "compileAddrs env authorizedAddrs [] = Inr authorizedAddrs"
| "compileAddrs env authorizedAddrs (addr # addrs) =
     (case regexp_Compile env addr of
        Inl err \<Rightarrow> Inl err
      | Inr authorizedAddr \<Rightarrow> compileAddrs env (authorizedAddrs @ [authorizedAddr]) addrs)"

definition AddUser ::
  "'r env \<Rightarrow> ('r, 't) Server \<Rightarrow> string \<Rightarrow> string \<Rightarrow> string list
     \<Rightarrow> error option \<times> ('r, 't) Server" where
  "AddUser env s user pass addrs =
    (case compileAddrs env [] addrs of
       Inl err \<Rightarrow> (Some err, s)
     | Inr authorizedAddrs \<Rightarrow>
         (None,
          s\<lparr>users := UsersAddUser (users s)
                \<lparr>Name = user, Pass = pass, Addrs = authorizedAddrs\<rparr>\<rparr>))"

definition DeleteUser :: "('r, 't) Server \<Rightarrow> string \<Rightarrow> ('r, 't) Server" where
  "DeleteUser s user = s\<lparr>users := Del (users s) user\<rparr>"

definition ResetUsers :: "('r, 't) Server \<Rightarrow> 'r User list \<Rightarrow> ('r, 't) Server" where
  "ResetUsers s us = s\<lparr>users := Reset (users s) us\<rparr>"

subsection \<open>authUserURL\<close>

text \<open>
  \<^verbatim>\<open>strings.Split(s, sep)\<close> for a separator of one byte: the pieces of \<open>s\<close> between the
  occurrences of the separator, at least one piece.
\<close>

fun strings_Split :: "string \<Rightarrow> char \<Rightarrow> string list" where
  "strings_Split [] sep = [[]]"
| "strings_Split (x # xs) sep =
     (if x = sep then [] # strings_Split xs sep
      else (case strings_Split xs sep of
              [] \<Rightarrow> [[x]]
            | p # ps \<Rightarrow> (x # p) # ps))"

text \<open>
  Lines 306 to 310: the name looked up in the user index. \<^verbatim>\<open>userNameParts[0]\<close> panics on
  an empty slice, which is \<open>None\<close> here.
\<close>

definition userNameACL :: "'t Config \<Rightarrow> string \<Rightarrow> string option" where
  "userNameACL cfg username =
    (if AuthURLAssumeUniqueUsernames cfg then
       (case strings_Split username (CHR ''@'') of
          [] \<Rightarrow> None
        | part # _ \<Rightarrow> Some part)
     else Some username)"

text \<open>
  Lines 322 to 330: the session's user has the asserted name and password and the
  addresses of the index record; it is stored under the session identifier.
\<close>

definition bindSession ::
  "('r, 't) Server \<Rightarrow> ConnMetadata \<Rightarrow> authUserData \<Rightarrow> 'r User \<Rightarrow> 'r event list
     \<Rightarrow> ret \<times> ('r, 't) Server \<times> 'r event list" where
  "bindSession s c authData userACL tr =
    (let user = \<lparr>Name = Username authData, Pass = Password authData, Addrs = Addrs userACL\<rparr>
     in (Return None,
         s\<lparr>sessions := Set (sessions s) (conn_SessionID c) user\<rparr>,
         tr @ [Printf (''%+v'' @ [CHR 0x0A]) userACL, SessionsSet (conn_SessionID c) user]))"

text \<open>Lines 306 to 330: what follows a response in the 2xx range with a JSON body.\<close>

definition aclLookup ::
  "'r env \<Rightarrow> ('r, 't) Server \<Rightarrow> ConnMetadata \<Rightarrow> authUserData \<Rightarrow> 'r event list
     \<Rightarrow> ret \<times> ('r, 't) Server \<times> 'r event list" where
  "aclLookup env s c authData tr =
    (case userNameACL (config s) (Username authData) of
       None \<Rightarrow> (Panic ''index out of range'', s, tr)
     | Some key \<Rightarrow>
         (case Get (users s) key of
            Some userACL \<Rightarrow> bindSession s c authData userACL (tr @ [UsersGet key])
          | None \<Rightarrow>
              let s' = s\<lparr>users := snd (LoadUserIndex env (users s))\<rparr>;
                  tr' = tr @ [UsersGet key,
                              Infof ''Username %s not found, attempting reload of index'' [key],
                              UsersLoadUserIndex, UsersGet key]
              in (case Get (users s') key of
                    None \<Rightarrow>
                      (Return (Some authError), s',
                       tr' @ [Debugf ''Username %s not found'' [key]])
                  | Some userACL \<Rightarrow> bindSession s' c authData userACL tr')))"

definition authUserURL ::
  "'r env \<Rightarrow> ('r, 't) Server \<Rightarrow> ConnMetadata \<Rightarrow> string
     \<Rightarrow> ret \<times> ('r, 't) Server \<times> 'r event list" where
  "authUserURL env s c password =
    (let authData = \<lparr>Username = conn_User c, Password = password\<rparr> in
     case json_Marshal env authData of
       Inl err \<Rightarrow> (Return (Some authError), s, [DebugfErr err])
     | Inr authDataJSON \<Rightarrow>
         (case authURLClient s of
            None \<Rightarrow> (Panic ''nil pointer dereference'', s, [])
          | Some client \<Rightarrow>
              let tr = [ClientPost (authURL s) ''application/json'' authDataJSON] in
              (case client_Post env client (authURL s) ''application/json'' authDataJSON of
                 Inl err \<Rightarrow> (Return (Some authError), s, tr @ [DebugfErr err])
               | Inr resp \<Rightarrow>
                   if 200 \<le> StatusCode resp \<and> StatusCode resp < 300 then
                     (case Body resp of
                        Inl err \<Rightarrow> (Return (Some authError), s, tr @ [DebugfErr err])
                      | Inr body \<Rightarrow>
                          (case json_Unmarshal env body of
                             Some err \<Rightarrow> (Return (Some authError), s, tr @ [DebugfErr err])
                           | None \<Rightarrow> aclLookup env s c authData tr))
                   else (Return (Some authError), s, tr))))"

subsection \<open>NewServer\<close>

text \<open>
  How \<^verbatim>\<open>NewServer\<close> ends: \<^verbatim>\<open>log.Fatal\<close> and \<^verbatim>\<open>log.Fatalf\<close> print and exit the process,
  \<^verbatim>\<open>return nil, err\<close> gives the caller an error and no server, \<^verbatim>\<open>return server, nil\<close>
  gives the server.
\<close>

datatype ('r, 't) startup =
    Fatal string
  | Fatalf string string error
  | ReturnErr error
  | ReturnServer "('r, 't) Server"
  | StartupPanic string

text \<open>The blocks of \<^verbatim>\<open>NewServer\<close> run in sequence; the first one that ends it ends it.\<close>

definition andThen ::
  "('r, 't) startup \<times> 'r event list
     \<Rightarrow> (('r, 't) Server \<Rightarrow> ('r, 't) startup \<times> 'r event list)
     \<Rightarrow> ('r, 't) startup \<times> 'r event list" where
  "andThen r f =
    (case r of
       (ReturnServer server, tr) \<Rightarrow> (case f server of (r', tr') \<Rightarrow> (r', tr @ tr'))
     | (other, tr) \<Rightarrow> (other, tr))"

text \<open>Lines 68 to 75: the server value \<^verbatim>\<open>NewServer\<close> starts from.\<close>

definition initServer :: "'t Config \<Rightarrow> ('r, 't) Server" where
  "initServer c =
    \<lparr>Info = True, config = c, fingerprint = [], reverseProxy = None, sessCount = 0,
     sessions = NewUsers, sshConfig = None, users = NewUsers, authURL = [],
     authURLClient = None\<rparr>"

text \<open>Lines 76 to 80: the users of the authentication file.\<close>

definition loadAuthFile ::
  "'r env \<Rightarrow> 't Config \<Rightarrow> ('r, 't) Server \<Rightarrow> ('r, 't) startup \<times> 'r event list" where
  "loadAuthFile env c server =
    (if AuthFile c \<noteq> [] then
       (case LoadUsers env (users server) (AuthFile c) of
          (Some err, us) \<Rightarrow> (ReturnErr err, [])
        | (None, us) \<Rightarrow> (ReturnServer (server\<lparr>users := us\<rparr>), []))
     else (ReturnServer server, []))"

text \<open>Lines 81 to 87: the inline \<^verbatim>\<open>Auth\<close> credential.\<close>

definition addInlineAuth ::
  "'r env \<Rightarrow> 't Config \<Rightarrow> ('r, 't) Server \<Rightarrow> ('r, 't) startup \<times> 'r event list" where
  "addInlineAuth env c server =
    (if Auth c \<noteq> [] then
       let u0 = \<lparr>Name = [], Pass = [], Addrs = [UserAllowAll env]\<rparr>;
           u = (case ParseAuth env (Auth c) of
                  (name, pass) \<Rightarrow> u0\<lparr>Name := name, Pass := pass\<rparr>)
       in if Name u \<noteq> [] then
            (ReturnServer (server\<lparr>users := UsersAddUser (users server) u\<rparr>), [])
          else (ReturnServer server, [])
     else (ReturnServer server, []))"

text \<open>Lines 88 to 105: the host key, its fingerprint and the ssh configuration.\<close>

definition setupKey ::
  "'r env \<Rightarrow> 't Config \<Rightarrow> ('r, 't) Server \<Rightarrow> ('r, 't) startup \<times> 'r event list" where
  "setupKey env c server =
    (case GenerateKey env (KeySeed c) of
       Inl err \<Rightarrow> (Fatal ''Failed to generate key'', [])
     | Inr key \<Rightarrow>
         (case ParsePrivateKey env key of
            Inl err \<Rightarrow> (Fatal ''Failed to parse key'', [])
          | Inr private \<Rightarrow>
              (ReturnServer
                 (server\<lparr>fingerprint := FingerprintKey env (PublicKey env private),
                         sshConfig := Some
                           \<lparr>ServerVersion = ''SSH-'' @ ProtocolVersion env @ ''-server'',
                            PasswordCallback = CallAuthUser,
                            HostKeys = [private]\<rparr>\<rparr>), [])))"

text \<open>
  Lines 117 to 127: the root pool after the optional CA certificate. A file that cannot
  be read ends the process; when no certificate of the file is appended, that is printed
  and the pool is used as it is.
\<close>

definition loadCaCert ::
  "'r env \<Rightarrow> 't Config \<Rightarrow> string list
     \<Rightarrow> (('r, 't) startup + string list) \<times> 'r event list" where
  "loadCaCert env c rootCAs =
    (if AuthURLCaCert c \<noteq> [] then
       (case ReadFile env (AuthURLCaCert c) of
          Inl err \<Rightarrow>
            (Inl (Fatalf ''Failed to append %q to RootCAs: %v'' (AuthURLCaCert c) err), [])
        | Inr certs \<Rightarrow>
            (case AppendCertsFromPEM env rootCAs certs of
               (rootCAs', ok) \<Rightarrow>
                 if \<not> ok then
                   (Inr rootCAs', [Println ''No certs appended, using system certs only''])
                 else (Inr rootCAs', [])))
     else (Inr rootCAs, []))"

text \<open>Lines 107 to 136: the client of the token service and its password callback.\<close>

definition setupAuthURL ::
  "'r env \<Rightarrow> 't Config \<Rightarrow> ('r, 't) Server \<Rightarrow> ('r, 't) startup \<times> 'r event list" where
  "setupAuthURL env c server =
    (if AuthURL c \<noteq> [] then
       let rootCAs = (case SystemCertPool env of None \<Rightarrow> [] | Some pool \<Rightarrow> pool) in
       (case loadCaCert env c rootCAs of
          (Inl stop, tr) \<Rightarrow> (stop, tr)
        | (Inr rootCAs', tr) \<Rightarrow>
            (case sshConfig server of
               None \<Rightarrow> (StartupPanic ''nil pointer dereference'', tr)
             | Some sc \<Rightarrow>
                 (ReturnServer
                    (server\<lparr>authURLClient := Some \<lparr>RootCAs = rootCAs'\<rparr>,
                            authURL := AuthURL c,
                            sshConfig := Some (sc\<lparr>PasswordCallback := CallAuthUserURL\<rparr>),
                            config := c\<rparr>), tr)))
     else (ReturnServer server, []))"

text \<open>Lines 148 to 153: the director closure over the parsed proxy URL \<open>u\<close>.\<close>

definition director :: "URL \<Rightarrow> Request \<Rightarrow> Request" where
  "director u r =
    r\<lparr>ReqURL := (ReqURL r)\<lparr>Scheme := Scheme u, Host := Host u\<rparr>, ReqHost := Host u\<rparr>"

text \<open>Lines 137 to 154: the reverse proxy.\<close>

definition setupProxy ::
  "'r env \<Rightarrow> 't Config \<Rightarrow> ('r, 't) Server \<Rightarrow> ('r, 't) startup \<times> 'r event list" where
  "setupProxy env c server =
    (if Proxy c \<noteq> [] then
       (case url_Parse env (Proxy c) of
          Inl err \<Rightarrow> (ReturnErr err, [])
        | Inr u \<Rightarrow>
            if Host u = [] then (ReturnErr (Errorf ''Missing protocol (%s)'' u), [])
            else (ReturnServer (server\<lparr>reverseProxy := Some \<lparr>Director = director u\<rparr>\<rparr>), []))
     else (ReturnServer server, []))"

text \<open>Lines 155 to 159.\<close>

definition announceReverse ::
  "'t Config \<Rightarrow> ('r, 't) Server \<Rightarrow> ('r, 't) startup \<times> 'r event list" where
  "announceReverse c server =
    (if Reverse c then (ReturnServer server, [Infof ''Reverse tunnelling enabled'' []])
     else (ReturnServer server, []))"

definition NewServer :: "'r env \<Rightarrow> 't Config \<Rightarrow> ('r, 't) startup \<times> 'r event list" where
  "NewServer env c =
    andThen (andThen (andThen (andThen (andThen
      (loadAuthFile env c (initServer c))
      (addInlineAuth env c))
      (setupKey env c))
      (setupAuthURL env c))
      (setupProxy env c))
      (announceReverse c)"

subsection \<open>The HTTP client's redirects\<close>

text \<open>
  \<^verbatim>\<open>NewServer\<close> builds the client as \<^verbatim>\<open>&http.Client{}\<close> (line 109): its \<^verbatim>\<open>CheckRedirect\<close> is
  \<^verbatim>\<open>nil\<close>, so \<^verbatim>\<open>Post\<close> (line 284) follows redirects under the default policy of
  \<^verbatim>\<open>net/http\<close>. What one server answers to one request is a \<open>Hop\<close>: the status code, the
  \<^verbatim>\<open>Location\<close> header (empty when absent, taken as an absolute URL) and what reading the
  body yields.
\<close>

record Hop =
  hop_Status :: int
  hop_Location :: string
  hop_Body :: "error + string"

text \<open>
  \<^verbatim>\<open>redirectBehavior\<close> of \<^verbatim>\<open>net/http\<close>: whether a response is followed, with which method,
  and whether the body is sent again (the body here is a buffer, which can be).
\<close>

definition redirectBehavior :: "string \<Rightarrow> Hop \<Rightarrow> (string \<times> bool) option" where
  "redirectBehavior reqMethod resp =
    (if hop_Status resp = 301 \<or> hop_Status resp = 302 \<or> hop_Status resp = 303 then
       Some (if reqMethod \<noteq> ''GET'' \<and> reqMethod \<noteq> ''HEAD'' then ''GET'' else reqMethod, False)
     else if hop_Status resp = 307 \<or> hop_Status resp = 308 then Some (reqMethod, True)
     else None)"

text \<open>
  The loop of \<^verbatim>\<open>Client.do\<close>: \<open>send\<close> is one round trip, \<open>left\<close> the number of further
  requests the default policy still allows. The response handed back is the first one
  that is not followed.
\<close>

fun client_do ::
  "(string \<Rightarrow> string \<Rightarrow> string \<Rightarrow> error + Hop) \<Rightarrow> nat \<Rightarrow> string \<Rightarrow> string \<Rightarrow> string
     \<Rightarrow> error + Response" where
  "client_do send left method url body =
    (case send method url body of
       Inl err \<Rightarrow> Inl err
     | Inr resp \<Rightarrow>
         (case redirectBehavior method resp of
            None \<Rightarrow> Inr \<lparr>StatusCode = hop_Status resp, Body = hop_Body resp\<rparr>
          | Some (redirectMethod, includeBody) \<Rightarrow>
              if hop_Location resp = [] then
                Inr \<lparr>StatusCode = hop_Status resp, Body = hop_Body resp\<rparr>
              else
                (case left of
                   0 \<Rightarrow> Inl (errors_New ''stopped after 10 redirects'')
                 | Suc n \<Rightarrow>
                     client_do send n redirectMethod (hop_Location resp)
                       (if includeBody then body else []))))"

text \<open>\<^verbatim>\<open>Client.Post\<close>: at most ten requests in all.\<close>

definition http_Post ::
  "(string \<Rightarrow> string \<Rightarrow> string \<Rightarrow> error + Hop) \<Rightarrow> string \<Rightarrow> string \<Rightarrow> error + Response" where
  "http_Post send url body = client_do send 9 ''POST'' url body"

subsection \<open>Concrete inputs\<close>

text \<open>
  A concrete world for the instances below. Compiled patterns are their source strings;
  the only pattern that does not compile is \<^verbatim>\<open>(\<close>. The authentication string is split at
  its first colon, the token service answers 200 to every request, the certificate file
  is readable and holds no certificate, and the user index has no file to reload from.
\<close>

definition test_env :: "string env" where
  "test_env =
    \<lparr>regexp_Compile =
       (\<lambda>p. if p = ''('' then Inl (errors_New ''missing closing )'') else Inr p),
     UserAllowAll = [],
     ParseAuth = (\<lambda>a. if CHR '':'' \<in> set a
                       then (takeWhile (\<lambda>ch. ch \<noteq> CHR '':'') a,
                             tl (dropWhile (\<lambda>ch. ch \<noteq> CHR '':'') a))
                       else ([], [])),
     LoadUsers = (\<lambda>us file. (None, us)),
     LoadUserIndex = (\<lambda>us. (None, us)),
     GenerateKey = (\<lambda>seed. Inr seed),
     ParsePrivateKey = (\<lambda>key. Inr key),
     PublicKey = (\<lambda>key. key),
     FingerprintKey = (\<lambda>key. key),
     ProtocolVersion = ''v3'',
     SystemCertPool = Some [],
     ReadFile = (\<lambda>path. Inr ''not a certificate''),
     AppendCertsFromPEM = (\<lambda>pool pem. (pool, False)),
     url_Parse =
       (\<lambda>raw. Inr \<lparr>Scheme = ''https'', Host = drop 8 raw, Path = [], RawQuery = []\<rparr>),
     json_Marshal = (\<lambda>d. Inr (Username d @ '':'' @ Password d)),
     json_Unmarshal = (\<lambda>body. None),
     client_Post =
       (\<lambda>client url ctype body. Inr \<lparr>StatusCode = 200, Body = Inr ''{}''\<rparr>)\<rparr>"

text \<open>The same world with a token service that answers 403.\<close>

definition env_403 :: "string env" where
  "env_403 = test_env\<lparr>client_Post :=
      \<lambda>client url ctype body. Inr \<lparr>StatusCode = 403, Body = Inr ''{}''\<rparr>\<rparr>"

text \<open>The same world with a certificate file that cannot be read.\<close>

definition env_nofile :: "string env" where
  "env_nofile = test_env\<lparr>ReadFile := \<lambda>path. Inl (errors_New ''no such file'')\<rparr>"

definition test_cfg :: "unit Config" where
  "test_cfg =
    \<lparr>KeySeed = ''seed'', AuthFile = [], AuthURL = ''https://auth.example/verify'',
     AuthURLCaCert = ''ca.pem'', AuthURLAssumeUniqueUsernames = True,
     Auth = ''alice:secret'', Proxy = ''https://backend.example:8443'',
     Socks5 = False, Reverse = False, KeepAlive = 0, TLS = ()\<rparr>"

text \<open>A proxy URL without a host, and an authentication string without a name.\<close>

definition cfg_nohost :: "unit Config" where
  "cfg_nohost = test_cfg\<lparr>Proxy := ''https://''\<rparr>"

definition cfg_noname :: "unit Config" where
  "cfg_noname = test_cfg\<lparr>Auth := '':secret''\<rparr>"

definition alice :: "string User" where
  "alice = \<lparr>Name = ''alice'', Pass = ''secret'', Addrs = [[]]\<rparr>"

definition backend :: URL where
  "backend =
    \<lparr>Scheme = ''https'', Host = ''backend.example:8443'', Path = [], RawQuery = []\<rparr>"

text \<open>The server that \<open>NewServer test_env test_cfg\<close> returns.\<close>

definition test_server :: "(string, unit) Server" where
  "test_server =
    \<lparr>Info = True, config = test_cfg, fingerprint = ''seed'',
     reverseProxy = Some \<lparr>Director = director backend\<rparr>,
     sessCount = 0, sessions = fmempty,
     sshConfig = Some \<lparr>ServerVersion = ''SSH-v3-server'',
                       PasswordCallback = CallAuthUserURL, HostKeys = [''seed'']\<rparr>,
     users = fmupd ''alice'' alice fmempty,
     authURL = ''https://auth.example/verify'', authURLClient = Some \<lparr>RootCAs = []\<rparr>\<rparr>"

definition alice_conn :: ConnMetadata where
  "alice_conn = \<lparr>conn_User = ''alice'', conn_SessionID = ''session-1''\<rparr>"

definition bob_conn :: ConnMetadata where
  "bob_conn = \<lparr>conn_User = ''bob@example.com'', conn_SessionID = ''session-2''\<rparr>"

definition test_request :: Request where
  "test_request =
    \<lparr>Method = ''GET'',
     ReqURL = \<lparr>Scheme = ''http'', Host = ''evil.example'', Path = ''/index.html'',
               RawQuery = ''q=1''\<rparr>,
     ReqHost = ''evil.example'', Header = [(''Host'', ''evil.example'')]\<rparr>"

text \<open>
  A token service that answers 302 with a \<^verbatim>\<open>Location\<close> at which the answer is 200 with a
  JSON body, and the world in which the client talks to it.
\<close>

definition redirecting_endpoint :: "string \<Rightarrow> string \<Rightarrow> string \<Rightarrow> error + Hop" where
  "redirecting_endpoint method url body =
    (if url = ''https://auth.example/verify'' then
       Inr \<lparr>hop_Status = 302, hop_Location = ''https://auth.example/login'',
            hop_Body = Inr []\<rparr>
     else Inr \<lparr>hop_Status = 200, hop_Location = [], hop_Body = Inr ''{}''\<rparr>)"

definition env_redirect :: "string env" where
  "env_redirect = test_env\<lparr>client_Post :=
      \<lambda>client url ctype body. http_Post redirecting_endpoint url body\<rparr>"

text \<open>A world in which reloading the user index brings in the user \<^verbatim>\<open>bob\<close>.\<close>

definition bob :: "string User" where
  "bob = \<lparr>Name = ''bob'', Pass = ''hunter2'', Addrs = [''^10[.]'']\<rparr>"

definition env_reload :: "string env" where
  "env_reload = test_env\<lparr>LoadUserIndex := \<lambda>us. (None, fmupd ''bob'' bob us)\<rparr>"

lemmas fixture_defs = test_env_def test_cfg_def test_server_def alice_def alice_conn_def
  bob_conn_def backend_def test_request_def

lemmas auth_defs = authUser_def authUserURL_def aclLookup_def bindSession_def userNameACL_def
  Get_def Set_def Len_def NewUsers_def UsersAddUser_def authError_def Let_def

lemmas startup_defs = NewServer_def andThen_def initServer_def loadAuthFile_def
  addInlineAuth_def setupKey_def loadCaCert_def setupAuthURL_def setupProxy_def
  announceReverse_def UsersAddUser_def Set_def NewUsers_def Let_def

section \<open>The local strategy\<close>

text \<open>
  Claim C1. With an empty user index, \<open>authUser\<close> returns no error for every user name,
  password and session identifier; its only call is \<open>Len\<close>, and the server, the session
  map included, is left as it was.
\<close>

theorem authUser_empty_store:
  "Len (users s) = 0 \<Longrightarrow> authUser s c password = (Return None, s, [UsersLen])"
  by (simp add: authUser_def)

theorem authUser_empty_store_witness:
  "Len (users (test_server\<lparr>users := NewUsers\<rparr>)) = 0
   \<and> authUser (test_server\<lparr>users := NewUsers\<rparr>) alice_conn ''anything''
       = (Return None, test_server\<lparr>users := NewUsers\<rparr>, [UsersLen])"
proof -
  have h: "Len (users (test_server\<lparr>users := NewUsers\<rparr>)) = 0"
    by (simp add: Len_def NewUsers_def)
  from authUser_empty_store[OF h] h show ?thesis by simp
qed

text \<open>
  Claim C2. With a user index that is not empty, \<open>authUser\<close> returns no error exactly
  when the index has a user under the given name whose stored password equals the given
  one, a comparison of the two byte strings. On success the only change to the server is
  that the session map binds the session identifier to that user. Every other outcome is
  the authentication error, and then the server is the one before the call: the call
  writes no entry, and a session identifier that was not bound before is not bound
  after.
\<close>

theorem authUser_nonempty_store:
  assumes "Len (users s) \<noteq> 0" and "authUser s c password = (r, s', tr)"
  shows "(r = Return None \<longleftrightarrow>
            (\<exists>u. Get (users s) (conn_User c) = Some u \<and> Pass u = password))
       \<and> (r = Return None \<longrightarrow>
            (\<exists>u. Get (users s) (conn_User c) = Some u
               \<and> s' = s\<lparr>sessions := Set (sessions s) (conn_SessionID c) u\<rparr>
               \<and> Get (sessions s') (conn_SessionID c) = Some u))
       \<and> (r \<noteq> Return None \<longrightarrow>
            r = Return (Some authError) \<and> s' = s
          \<and> (Get (sessions s) (conn_SessionID c) = None
                \<longrightarrow> Get (sessions s') (conn_SessionID c) = None))"
  using assms
  by (auto simp: authUser_def Let_def Get_def Set_def split: option.splits if_splits)

theorem authUser_nonempty_store_witness:
  "Len (users test_server) \<noteq> 0
   \<and> fst (authUser test_server alice_conn ''secret'') = Return None
   \<and> Get (sessions (fst (snd (authUser test_server alice_conn ''secret''))))
         ''session-1'' = Some alice
   \<and> fst (authUser test_server alice_conn ''Secret'') = Return (Some authError)
   \<and> fst (snd (authUser test_server alice_conn ''Secret'')) = test_server
   \<and> Get (sessions test_server) ''session-1'' = None
   \<and> Get (sessions (fst (snd (authUser test_server alice_conn ''Secret''))))
         ''session-1'' = None"
proof -
  let ?A = "authUser test_server alice_conn ''secret''"
  let ?B = "authUser test_server alice_conn ''Secret''"
  have h: "Len (users test_server) \<noteq> 0"
    by (simp add: Len_def test_server_def)
  have g: "Get (users test_server) (conn_User alice_conn) = Some alice"
    by (simp add: Get_def test_server_def alice_conn_def)
  have sid: "conn_SessionID alice_conn = ''session-1''"
    by (simp add: alice_conn_def)
  have n: "Get (sessions test_server) ''session-1'' = None"
    by (simp add: test_server_def Get_def)
  have yes: "\<exists>u. Get (users test_server) (conn_User alice_conn) = Some u \<and> Pass u = ''secret''"
    using g by (simp add: alice_def)
  have no: "\<not> (\<exists>u. Get (users test_server) (conn_User alice_conn) = Some u
                    \<and> Pass u = ''Secret'')"
    using g by (simp add: alice_def)
  have a: "?A = (fst ?A, fst (snd ?A), snd (snd ?A))" by simp
  have b: "?B = (fst ?B, fst (snd ?B), snd (snd ?B))" by simp
  note TA = authUser_nonempty_store[OF h a]
  note TB = authUser_nonempty_store[OF h b]
  from TA yes have ra: "fst ?A = Return None" by blast
  with TA g have sa: "Get (sessions (fst (snd ?A))) (conn_SessionID alice_conn) = Some alice"
    by fastforce
  from TB no have rb: "fst ?B \<noteq> Return None" by blast
  with TB have fb: "fst ?B = Return (Some authError)" "fst (snd ?B) = test_server"
    by blast+
  from h ra sa rb fb n sid show ?thesis by simp
qed

section \<open>The remote strategy\<close>

text \<open>
  Claim C3, as the code has it. When the response that \<^verbatim>\<open>Post\<close> hands back, the last one
  after the client has followed any redirects, has a status code below 200 or from 300
  on, \<open>authUserURL\<close> returns the authentication error, whatever the body of the response
  is; the server is left as it was, so no session is bound, and the only call made is the
  request itself.
\<close>

theorem authUserURL_non2xx:
  assumes "json_Marshal env \<lparr>Username = conn_User c, Password = password\<rparr> = Inr body"
    and "authURLClient s = Some client"
    and "client_Post env client (authURL s) ''application/json'' body = Inr resp"
    and "StatusCode resp < 200 \<or> 300 \<le> StatusCode resp"
  shows "authUserURL env s c password =
           (Return (Some authError), s, [ClientPost (authURL s) ''application/json'' body])"
  using assms by (auto simp: authUserURL_def Let_def)

theorem authUserURL_non2xx_witness:
  "json_Marshal env_403 \<lparr>Username = conn_User alice_conn, Password = ''secret''\<rparr>
      = Inr ''alice:secret''
   \<and> authURLClient test_server = Some \<lparr>RootCAs = []\<rparr>
   \<and> client_Post env_403 \<lparr>RootCAs = []\<rparr> (authURL test_server) ''application/json''
        ''alice:secret'' = Inr \<lparr>StatusCode = 403, Body = Inr ''{}''\<rparr>
   \<and> authUserURL env_403 test_server alice_conn ''secret''
       = (Return (Some authError), test_server,
          [ClientPost ''https://auth.example/verify'' ''application/json'' ''alice:secret''])"
proof -
  have 1: "json_Marshal env_403 \<lparr>Username = conn_User alice_conn, Password = ''secret''\<rparr>
      = Inr ''alice:secret''"
    by (simp add: env_403_def test_env_def alice_conn_def)
  have 2: "authURLClient test_server = Some \<lparr>RootCAs = []\<rparr>"
    by (simp add: test_server_def)
  have 3: "client_Post env_403 \<lparr>RootCAs = []\<rparr> (authURL test_server) ''application/json''
        ''alice:secret'' = Inr \<lparr>StatusCode = 403, Body = Inr ''{}''\<rparr>"
    by (simp add: env_403_def test_env_def)
  have 4: "StatusCode \<lparr>StatusCode = 403, Body = Inr ''{}''\<rparr> < 200
         \<or> 300 \<le> StatusCode \<lparr>StatusCode = 403, Body = Inr ''{}''\<rparr>" by simp
  have 5: "authURL test_server = ''https://auth.example/verify''"
    by (simp add: test_server_def)
  from authUserURL_non2xx[OF 1 2 3 4] 1 2 3 5 show ?thesis by simp
qed

text \<open>
  The claim as the specification words it is about the status code the endpoint answers
  with. Here the endpoint answers 302 to the posted credentials, the client follows the
  redirect, the response handed back is a 200, and \<open>authUserURL\<close> returns no error and
  binds the session, although the password is not the stored one.
\<close>

theorem authUserURL_redirect_counterexample:
  "redirecting_endpoint ''POST'' (authURL test_server) ''alice:wrong''
     = Inr \<lparr>hop_Status = 302, hop_Location = ''https://auth.example/login'',
            hop_Body = Inr []\<rparr>
   \<and> fst (authUserURL env_redirect test_server alice_conn ''wrong'') = Return None
   \<and> Get (sessions (fst (snd (authUserURL env_redirect test_server alice_conn ''wrong''))))
        ''session-1'' = Some \<lparr>Name = ''alice'', Pass = ''wrong'', Addrs = [[]]\<rparr>"
  by (simp add: fixture_defs auth_defs env_redirect_def http_Post_def redirecting_endpoint_def
      redirectBehavior_def)

subsection \<open>The name looked up in the user index\<close>

lemma strings_Split_takeWhile:
  "\<exists>ps. strings_Split s sep = takeWhile (\<lambda>ch. ch \<noteq> sep) s # ps"
  by (induction s) auto

text \<open>\<^verbatim>\<open>userNameParts[0]\<close> never panics: the split has a first piece.\<close>

lemma userNameACL_eq:
  "userNameACL cfg username =
     Some (if AuthURLAssumeUniqueUsernames cfg
           then takeWhile (\<lambda>ch. ch \<noteq> CHR ''@'') username else username)"
proof -
  obtain ps where "strings_Split username (CHR ''@'')
      = takeWhile (\<lambda>ch. ch \<noteq> CHR ''@'') username # ps"
    using strings_Split_takeWhile by blast
  then show ?thesis by (simp add: userNameACL_def)
qed

text \<open>
  What \<open>aclLookup\<close> adds to a trace that has no reload and no lookup of the name yet.
\<close>

lemma aclLookup_trace:
  assumes "aclLookup env s c d tr = (r, s', tr')"
    and "UsersLoadUserIndex \<notin> set tr" and "UsersGet key \<notin> set tr"
    and "userNameACL (config s) (Username d) = Some key"
  shows "case Get (users s) key of
           Some u \<Rightarrow>
             count_list tr' UsersLoadUserIndex = 0 \<and> count_list tr' (UsersGet key) = 1
             \<and> users s' = users s \<and> r = Return None
             \<and> Get (sessions s') (conn_SessionID c)
                 = Some \<lparr>Name = Username d, Pass = Password d, Addrs = Addrs u\<rparr>
         | None \<Rightarrow>
             count_list tr' UsersLoadUserIndex = 1 \<and> count_list tr' (UsersGet key) = 2
             \<and> users s' = snd (LoadUserIndex env (users s))
             \<and> (case Get (snd (LoadUserIndex env (users s))) key of
                   None \<Rightarrow> r = Return (Some authError) \<and> sessions s' = sessions s
                 | Some u \<Rightarrow>
                     r = Return None
                     \<and> Get (sessions s') (conn_SessionID c)
                         = Some \<lparr>Name = Username d, Pass = Password d, Addrs = Addrs u\<rparr>)"
  using assms
  by (auto simp: aclLookup_def Let_def bindSession_def Get_def Set_def count_list_0_iff
      split: option.splits)

lemma authUserURL_reload_le:
  assumes "authUserURL env s c password = (r, s', tr)"
  shows "count_list tr UsersLoadUserIndex \<le> 1"
  using assms
  by (auto simp: authUserURL_def Let_def aclLookup_def bindSession_def userNameACL_eq
      split: sum.splits option.splits if_splits)

text \<open>
  Claim C4. In one call of \<open>authUserURL\<close> the user index is reloaded at most once. When
  the token service has answered in the 2xx range with a body that reads and parses, the
  computed name is looked up. If the index does not have it, the index is reloaded
  exactly once and the name is looked up exactly once more, two lookups in all, in the
  reloaded index: if it is still missing the call returns the authentication error and
  binds no session, and if it is there the call binds the session with the addresses of
  the reloaded record. If the first lookup finds the name, there is that one lookup and
  no reload.
\<close>

theorem authUserURL_reload_once:
  assumes "authUserURL env s c password = (r, s', tr)"
  shows "count_list tr UsersLoadUserIndex \<le> 1
       \<and> (\<forall>j client resp body key.
            json_Marshal env \<lparr>Username = conn_User c, Password = password\<rparr> = Inr j
          \<and> authURLClient s = Some client
          \<and> client_Post env client (authURL s) ''application/json'' j = Inr resp
          \<and> 200 \<le> StatusCode resp \<and> StatusCode resp < 300
          \<and> Body resp = Inr body \<and> json_Unmarshal env body = None
          \<and> key = (if AuthURLAssumeUniqueUsernames (config s)
                    then takeWhile (\<lambda>ch. ch \<noteq> CHR ''@'') (conn_User c) else conn_User c)
          \<longrightarrow>
            (case Get (users s) key of
               Some u \<Rightarrow>
                 count_list tr UsersLoadUserIndex = 0 \<and> count_list tr (UsersGet key) = 1
                 \<and> users s' = users s \<and> r = Return None
                 \<and> Get (sessions s') (conn_SessionID c)
                     = Some \<lparr>Name = conn_User c, Pass = password, Addrs = Addrs u\<rparr>
             | None \<Rightarrow>
                 count_list tr UsersLoadUserIndex = 1 \<and> count_list tr (UsersGet key) = 2
                 \<and> users s' = snd (LoadUserIndex env (users s))
                 \<and> (case Get (snd (LoadUserIndex env (users s))) key of
                       None \<Rightarrow> r = Return (Some authError) \<and> sessions s' = sessions s
                     | Some u \<Rightarrow>
                         r = Return None
                         \<and> Get (sessions s') (conn_SessionID c)
                             = Some \<lparr>Name = conn_User c, Pass = password,
                                     Addrs = Addrs u\<rparr>)))"
proof (intro conjI allI impI)
  show "count_list tr UsersLoadUserIndex \<le> 1"
    using assms by (rule authUserURL_reload_le)
next
  fix j client resp body key
  assume h: "json_Marshal env \<lparr>Username = conn_User c, Password = password\<rparr> = Inr j
          \<and> authURLClient s = Some client
          \<and> client_Post env client (authURL s) ''application/json'' j = Inr resp
          \<and> 200 \<le> StatusCode resp \<and> StatusCode resp < 300
          \<and> Body resp = Inr body \<and> json_Unmarshal env body = None
          \<and> key = (if AuthURLAssumeUniqueUsernames (config s)
                    then takeWhile (\<lambda>ch. ch \<noteq> CHR ''@'') (conn_User c) else conn_User c)"
  let ?d = "\<lparr>Username = conn_User c, Password = password\<rparr>"
  have "authUserURL env s c password =
      aclLookup env s c ?d [ClientPost (authURL s) ''application/json'' j]"
    using h by (simp add: authUserURL_def Let_def)
  then have a: "aclLookup env s c ?d [ClientPost (authURL s) ''application/json'' j]
      = (r, s', tr)"
    using assms by simp
  have k: "userNameACL (config s) (Username ?d) = Some key"
    using h by (simp add: userNameACL_eq)
  from aclLookup_trace[OF a _ _ k]
  show "case Get (users s) key of
               Some u \<Rightarrow>
                 count_list tr UsersLoadUserIndex = 0 \<and> count_list tr (UsersGet key) = 1
                 \<and> users s' = users s \<and> r = Return None
                 \<and> Get (sessions s') (conn_SessionID c)
                     = Some \<lparr>Name = conn_User c, Pass = password, Addrs = Addrs u\<rparr>
             | None \<Rightarrow>
                 count_list tr UsersLoadUserIndex = 1 \<and> count_list tr (UsersGet key) = 2
                 \<and> users s' = snd (LoadUserIndex env (users s))
                 \<and> (case Get (snd (LoadUserIndex env (users s))) key of
                       None \<Rightarrow> r = Return (Some authError) \<and> sessions s' = sessions s
                     | Some u \<Rightarrow>
                         r = Return None
                         \<and> Get (sessions s') (conn_SessionID c)
                             = Some \<lparr>Name = conn_User c, Pass = password,
                                     Addrs = Addrs u\<rparr>)"
    by (auto split: option.splits)
qed

theorem authUserURL_reload_once_witness:
  "Get (users test_server) ''bob'' = None
   \<and> Get (snd (LoadUserIndex test_env (users test_server))) ''bob'' = None
   \<and> count_list (snd (snd (authUserURL test_env test_server bob_conn ''pw'')))
        UsersLoadUserIndex = 1
   \<and> count_list (snd (snd (authUserURL test_env test_server bob_conn ''pw'')))
        (UsersGet ''bob'') = 2
   \<and> fst (authUserURL test_env test_server bob_conn ''pw'') = Return (Some authError)
   \<and> Get (snd (LoadUserIndex env_reload (users test_server))) ''bob'' = Some bob
   \<and> count_list (snd (snd (authUserURL env_reload test_server bob_conn ''pw'')))
        UsersLoadUserIndex = 1
   \<and> fst (authUserURL env_reload test_server bob_conn ''pw'') = Return None
   \<and> Get (sessions (fst (snd (authUserURL env_reload test_server bob_conn ''pw''))))
        ''session-2'' = Some \<lparr>Name = ''bob@example.com'', Pass = ''pw'', Addrs = [''^10[.]'']\<rparr>
   \<and> Get (users test_server) ''alice'' = Some alice
   \<and> count_list (snd (snd (authUserURL test_env test_server alice_conn ''pw'')))
        UsersLoadUserIndex = 0
   \<and> count_list (snd (snd (authUserURL test_env test_server alice_conn ''pw'')))
        (UsersGet ''alice'') = 1"
proof -
  let ?X = "authUserURL test_env test_server bob_conn ''pw''"
  let ?Y = "authUserURL env_reload test_server bob_conn ''pw''"
  let ?Z = "authUserURL test_env test_server alice_conn ''pw''"
  let ?resp = "\<lparr>StatusCode = 200, Body = Inr ''{}''\<rparr>"
  have x: "?X = (fst ?X, fst (snd ?X), snd (snd ?X))" by simp
  have y: "?Y = (fst ?Y, fst (snd ?Y), snd (snd ?Y))" by simp
  have z: "?Z = (fst ?Z, fst (snd ?Z), snd (snd ?Z))" by simp
  have px: "json_Marshal test_env \<lparr>Username = conn_User bob_conn, Password = ''pw''\<rparr>
        = Inr ''bob@example.com:pw''
      \<and> authURLClient test_server = Some \<lparr>RootCAs = []\<rparr>
      \<and> client_Post test_env \<lparr>RootCAs = []\<rparr> (authURL test_server) ''application/json''
           ''bob@example.com:pw'' = Inr ?resp
      \<and> 200 \<le> StatusCode ?resp \<and> StatusCode ?resp < 300
      \<and> Body ?resp = Inr ''{}'' \<and> json_Unmarshal test_env ''{}'' = None
      \<and> ''bob'' = (if AuthURLAssumeUniqueUsernames (config test_server)
                    then takeWhile (\<lambda>ch. ch \<noteq> CHR ''@'') (conn_User bob_conn)
                    else conn_User bob_conn)"
    by (simp add: fixture_defs)
  have py: "json_Marshal env_reload \<lparr>Username = conn_User bob_conn, Password = ''pw''\<rparr>
        = Inr ''bob@example.com:pw''
      \<and> authURLClient test_server = Some \<lparr>RootCAs = []\<rparr>
      \<and> client_Post env_reload \<lparr>RootCAs = []\<rparr> (authURL test_server) ''application/json''
           ''bob@example.com:pw'' = Inr ?resp
      \<and> 200 \<le> StatusCode ?resp \<and> StatusCode ?resp < 300
      \<and> Body ?resp = Inr ''{}'' \<and> json_Unmarshal env_reload ''{}'' = None
      \<and> ''bob'' = (if AuthURLAssumeUniqueUsernames (config test_server)
                    then takeWhile (\<lambda>ch. ch \<noteq> CHR ''@'') (conn_User bob_conn)
                    else conn_User bob_conn)"
    by (simp add: fixture_defs env_reload_def)
  have pz: "json_Marshal test_env \<lparr>Username = conn_User alice_conn, Password = ''pw''\<rparr>
        = Inr ''alice:pw''
      \<and> authURLClient test_server = Some \<lparr>RootCAs = []\<rparr>
      \<and> client_Post test_env \<lparr>RootCAs = []\<rparr> (authURL test_server) ''application/json''
           ''alice:pw'' = Inr ?resp
      \<and> 200 \<le> StatusCode ?resp \<and> StatusCode ?resp < 300
      \<and> Body ?resp = Inr ''{}'' \<and> json_Unmarshal test_env ''{}'' = None
      \<and> ''alice'' = (if AuthURLAssumeUniqueUsernames (config test_server)
                    then takeWhile (\<lambda>ch. ch \<noteq> CHR ''@'') (conn_User alice_conn)
                    else conn_User alice_conn)"
    by (simp add: fixture_defs)
  have g: "Get (users test_server) ''bob'' = None"
    "Get (snd (LoadUserIndex test_env (users test_server))) ''bob'' = None"
    "Get (snd (LoadUserIndex env_reload (users test_server))) ''bob'' = Some bob"
    "Get (users test_server) ''alice'' = Some alice"
    "conn_SessionID bob_conn = ''session-2''" "conn_User bob_conn = ''bob@example.com''"
    "Addrs bob = [''^10[.]'']"
    by (simp_all add: fixture_defs env_reload_def bob_def Get_def)
  note TX = authUserURL_reload_once[OF x, THEN conjunct2, rule_format, OF px]
  note TY = authUserURL_reload_once[OF y, THEN conjunct2, rule_format, OF py]
  note TZ = authUserURL_reload_once[OF z, THEN conjunct2, rule_format, OF pz]
  from TX TY TZ g show ?thesis by simp
qed

text \<open>
  Claim C5. The name computed for the lookup is the asserted user name up to, and
  without, its first \<^verbatim>\<open>@\<close> when \<^verbatim>\<open>AuthURLAssumeUniqueUsernames\<close> is set, and the asserted
  user name itself when it is not; every lookup that \<open>authUserURL\<close> makes in the user
  index is a lookup of that name. A user name without \<^verbatim>\<open>@\<close> is looked up whole under
  either setting.
\<close>

theorem authUserURL_acl_key:
  "userNameACL (config s) (conn_User c) =
       Some (if AuthURLAssumeUniqueUsernames (config s)
             then takeWhile (\<lambda>ch. ch \<noteq> CHR ''@'') (conn_User c) else conn_User c)
   \<and> (UsersGet key \<in> set (snd (snd (authUserURL env s c password))) \<longrightarrow>
        key = (if AuthURLAssumeUniqueUsernames (config s)
               then takeWhile (\<lambda>ch. ch \<noteq> CHR ''@'') (conn_User c) else conn_User c))
   \<and> (CHR ''@'' \<notin> set (conn_User c) \<longrightarrow>
        userNameACL (config s) (conn_User c) = Some (conn_User c))"
proof (intro conjI impI)
  show "userNameACL (config s) (conn_User c) =
       Some (if AuthURLAssumeUniqueUsernames (config s)
             then takeWhile (\<lambda>ch. ch \<noteq> CHR ''@'') (conn_User c) else conn_User c)"
    by (rule userNameACL_eq)
next
  assume "UsersGet key \<in> set (snd (snd (authUserURL env s c password)))"
  then show "key = (if AuthURLAssumeUniqueUsernames (config s)
               then takeWhile (\<lambda>ch. ch \<noteq> CHR ''@'') (conn_User c) else conn_User c)"
    by (auto simp: authUserURL_def Let_def aclLookup_def bindSession_def userNameACL_eq
        split: sum.splits option.splits if_splits)
next
  assume "CHR ''@'' \<notin> set (conn_User c)"
  then show "userNameACL (config s) (conn_User c) = Some (conn_User c)"
    by (auto simp: userNameACL_eq)
qed

theorem authUserURL_acl_key_witness:
  "UsersGet ''bob'' \<in> set (snd (snd (authUserURL test_env test_server bob_conn ''pw'')))
   \<and> AuthURLAssumeUniqueUsernames (config test_server)
   \<and> ''bob'' = takeWhile (\<lambda>ch. ch \<noteq> CHR ''@'') (conn_User bob_conn)
   \<and> CHR ''@'' \<notin> set (conn_User alice_conn)
   \<and> userNameACL (config test_server) (conn_User alice_conn) = Some ''alice''"
proof -
  have e1: "UsersGet ''bob''
      \<in> set (snd (snd (authUserURL test_env test_server bob_conn ''pw'')))"
    by (simp add: fixture_defs auth_defs)
  have e2: "AuthURLAssumeUniqueUsernames (config test_server)"
    by (simp add: fixture_defs)
  have e3: "CHR ''@'' \<notin> set (conn_User alice_conn)" "conn_User alice_conn = ''alice''"
    by (simp_all add: fixture_defs)
  from authUserURL_acl_key[of test_server bob_conn "''bob''" test_env "''pw''"]
       authUserURL_acl_key[of test_server alice_conn "''bob''" test_env "''pw''"] e1 e2 e3
  show ?thesis by simp
qed

section \<open>One error for every failure\<close>

lemma aclLookup_ret:
  "fst (aclLookup env s c d tr) = Return (Some e) \<Longrightarrow> e = authError"
  by (auto simp: aclLookup_def Let_def bindSession_def userNameACL_eq split: option.splits)

lemma authUser_ret:
  "fst (authUser s c password) = Return (Some e) \<Longrightarrow> e = authError"
  by (auto simp: authUser_def Let_def split: option.splits if_splits)

lemma authUserURL_ret:
  "fst (authUserURL env s c password) = Return (Some e) \<Longrightarrow> e = authError"
  by (auto simp: authUserURL_def Let_def split: option.splits if_splits sum.splits
      dest: aclLookup_ret)

text \<open>
  Claim C9. Whenever \<open>authUser\<close> or \<open>authUserURL\<close> returns an error, it is the one value
  \<open>authError\<close>, a constant message built from none of the user name, the password and
  the cause. So two failing runs, of either strategy, in any worlds, on any servers and
  with any credentials, return equal errors.
\<close>

theorem auth_failure_opaque:
  assumes "r1 = fst (authUser s1 c1 p1) \<or> r1 = fst (authUserURL env1 s1 c1 p1)"
      and "r2 = fst (authUser s2 c2 p2) \<or> r2 = fst (authUserURL env2 s2 c2 p2)"
      and "r1 = Return (Some e1)" and "r2 = Return (Some e2)"
  shows "e1 = authError \<and> e2 = e1"
proof -
  have "e1 = authError" using assms(1,3) authUser_ret authUserURL_ret by metis
  moreover have "e2 = authError" using assms(2,4) authUser_ret authUserURL_ret by metis
  ultimately show ?thesis by simp
qed

theorem auth_failure_opaque_witness:
  "fst (authUser test_server alice_conn ''wrong'') = Return (Some authError)
   \<and> fst (authUserURL test_env test_server bob_conn ''pw'') = Return (Some authError)"
proof -
  have "\<exists>e1. fst (authUser test_server alice_conn ''wrong'') = Return (Some e1)"
    by (simp add: fixture_defs auth_defs)
  moreover
  have "\<exists>e2. fst (authUserURL test_env test_server bob_conn ''pw'') = Return (Some e2)"
    by (simp add: fixture_defs auth_defs)
  ultimately obtain e1 e2 where
    e: "fst (authUser test_server alice_conn ''wrong'') = Return (Some e1)"
       "fst (authUserURL test_env test_server bob_conn ''pw'') = Return (Some e2)" by blast
  have "e1 = authError \<and> e2 = e1"
    by (rule auth_failure_opaque[of "Return (Some e1)" test_server alice_conn "''wrong''"
          test_env "Return (Some e2)" test_server bob_conn "''pw''" test_env])
       (simp_all add: e)
  with e show ?thesis by simp
qed

section \<open>AddUser\<close>

lemma compileAddrs_ok:
  "map (regexp_Compile env) addrs = map Inr rs
     \<Longrightarrow> compileAddrs env acc addrs = Inr (acc @ rs)"
  by (induction addrs arbitrary: acc rs) auto

lemma compileAddrs_fail:
  "addr \<in> set addrs \<Longrightarrow> regexp_Compile env addr = Inl e \<Longrightarrow>
   \<exists>err. compileAddrs env acc addrs = Inl err"
  by (induction addrs arbitrary: acc) (auto split: sum.splits)

text \<open>
  Claim C6. \<open>AddUser\<close> compiles the address patterns in order. If one of them does not
  compile, it returns an error and the server, its user index included, is the one
  before the call. If all of them compile, it returns no error and the only change is
  that the user index holds, under the user's name, the user with the given password and
  the compiled patterns in the order given.
\<close>

theorem AddUser_all_or_nothing:
  "(\<forall>addr e. addr \<in> set addrs \<and> regexp_Compile env addr = Inl e \<longrightarrow>
      (\<exists>err. AddUser env s user pass addrs = (Some err, s)))
   \<and> (\<forall>rs. map (regexp_Compile env) addrs = map Inr rs \<longrightarrow>
        AddUser env s user pass addrs =
          (None, s\<lparr>users := UsersAddUser (users s)
                     \<lparr>Name = user, Pass = pass, Addrs = rs\<rparr>\<rparr>)
      \<and> Get (users (snd (AddUser env s user pass addrs))) user
          = Some \<lparr>Name = user, Pass = pass, Addrs = rs\<rparr>)"
proof (intro conjI allI impI)
  fix addr e assume "addr \<in> set addrs \<and> regexp_Compile env addr = Inl e"
  then obtain err where "compileAddrs env [] addrs = Inl err"
    using compileAddrs_fail by blast
  then show "\<exists>err. AddUser env s user pass addrs = (Some err, s)"
    by (simp add: AddUser_def)
next
  fix rs assume "map (regexp_Compile env) addrs = map Inr rs"
  then have c: "compileAddrs env [] addrs = Inr rs"
    using compileAddrs_ok[of env addrs rs "[]"] by simp
  then show "AddUser env s user pass addrs =
          (None, s\<lparr>users := UsersAddUser (users s)
                     \<lparr>Name = user, Pass = pass, Addrs = rs\<rparr>\<rparr>)"
    by (simp add: AddUser_def)
  from c show "Get (users (snd (AddUser env s user pass addrs))) user
          = Some \<lparr>Name = user, Pass = pass, Addrs = rs\<rparr>"
    by (simp add: AddUser_def UsersAddUser_def Set_def Get_def)
qed

theorem AddUser_all_or_nothing_witness:
  "''('' \<in> set [''^10[.]'', ''('']
   \<and> regexp_Compile test_env ''('' = Inl (errors_New ''missing closing )'')
   \<and> snd (AddUser test_env test_server ''carol'' ''pw'' [''^10[.]'', ''('']) = test_server
   \<and> map (regexp_Compile test_env) [''^10[.]'', ''^192[.]'']
       = map Inr [''^10[.]'', ''^192[.]'']
   \<and> Get (users (snd (AddUser test_env test_server ''carol'' ''pw''
                        [''^10[.]'', ''^192[.]''])))
        ''carol'' = Some \<lparr>Name = ''carol'', Pass = ''pw'', Addrs = [''^10[.]'', ''^192[.]'']\<rparr>"
proof -
  have 1: "''('' \<in> set [''^10[.]'', ''(''] \<and>
           regexp_Compile test_env ''('' = Inl (errors_New ''missing closing )'')"
    by (simp add: test_env_def)
  have 2: "map (regexp_Compile test_env) [''^10[.]'', ''^192[.]'']
         = map Inr [''^10[.]'', ''^192[.]'']"
    by (simp add: test_env_def)
  note T1 = AddUser_all_or_nothing[of "[''^10[.]'', ''('']" test_env test_server
              "''carol''" "''pw''"]
  note T2 = AddUser_all_or_nothing[of "[''^10[.]'', ''^192[.]'']" test_env test_server
              "''carol''" "''pw''"]
  from T1 1 have "\<exists>err. AddUser test_env test_server ''carol'' ''pw'' [''^10[.]'', ''('']
      = (Some err, test_server)" by blast
  then have 3: "snd (AddUser test_env test_server ''carol'' ''pw'' [''^10[.]'', ''(''])
      = test_server"
    by auto
  from T2 2
  have 4: "Get (users (snd (AddUser test_env test_server ''carol'' ''pw''
                        [''^10[.]'', ''^192[.]''])))
        ''carol'' = Some \<lparr>Name = ''carol'', Pass = ''pw'', Addrs = [''^10[.]'', ''^192[.]'']\<rparr>"
    by blast
  from 1 2 3 4 show ?thesis by blast
qed

section \<open>NewServer\<close>

subsection \<open>The blocks in sequence\<close>

lemma andThen_ReturnServer:
  "fst (andThen r f) = ReturnServer srv \<longleftrightarrow>
     (\<exists>s0. fst r = ReturnServer s0 \<and> fst (f s0) = ReturnServer srv)"
  by (cases r; cases "fst r") (auto simp: andThen_def split: prod.splits startup.splits)

lemma andThen_fst:
  "fst (andThen r f) = (case fst r of ReturnServer s0 \<Rightarrow> fst (f s0) | other \<Rightarrow> other)"
  by (cases r; cases "fst r") (auto simp: andThen_def split: prod.splits startup.splits)

lemma fst_andThen_cong:
  "fst r = fst r' \<Longrightarrow> (\<And>s. fst (f s) = fst (f' s))
     \<Longrightarrow> fst (andThen r f) = fst (andThen r' f')"
  by (simp add: andThen_fst split: startup.splits)

lemma loadAuthFile_D:
  "fst (loadAuthFile env c s) = ReturnServer s' \<Longrightarrow>
     s' = s\<lparr>users := (if AuthFile c \<noteq> [] then snd (LoadUsers env (users s) (AuthFile c))
                      else users s)\<rparr>"
  by (auto simp: loadAuthFile_def split: if_splits prod.splits option.splits)

lemma addInlineAuth_eq:
  "addInlineAuth env c s =
     (ReturnServer (s\<lparr>users :=
        (if Auth c \<noteq> [] \<and> fst (ParseAuth env (Auth c)) \<noteq> []
         then UsersAddUser (users s)
                \<lparr>Name = fst (ParseAuth env (Auth c)), Pass = snd (ParseAuth env (Auth c)),
                 Addrs = [UserAllowAll env]\<rparr>
         else users s)\<rparr>), [])"
  by (auto simp: addInlineAuth_def Let_def split: prod.splits)

lemma setupKey_D:
  "fst (setupKey env c s) = ReturnServer s' \<Longrightarrow>
     users s' = users s \<and> reverseProxy s' = reverseProxy s \<and> sshConfig s' \<noteq> None"
  by (auto simp: setupKey_def split: sum.splits)

lemma loadCaCert_Inl:
  "loadCaCert env c pool = (Inl stop, tr) \<Longrightarrow>
     AuthURLCaCert c \<noteq> [] \<and> (\<exists>err. ReadFile env (AuthURLCaCert c) = Inl err
        \<and> stop = Fatalf ''Failed to append %q to RootCAs: %v'' (AuthURLCaCert c) err)"
  by (auto simp: loadCaCert_def split: if_splits sum.splits prod.splits)

lemma setupAuthURL_D:
  "fst (setupAuthURL env c s) = ReturnServer s' \<Longrightarrow>
     users s' = users s \<and> reverseProxy s' = reverseProxy s"
  by (auto simp: setupAuthURL_def Let_def
      split: sum.splits if_splits prod.splits option.splits dest!: loadCaCert_Inl)

lemma setupProxy_D:
  "fst (setupProxy env c s) = ReturnServer s' \<Longrightarrow>
     users s' = users s \<and>
     (if Proxy c \<noteq> [] then
        (\<exists>u. url_Parse env (Proxy c) = Inr u \<and> Host u \<noteq> []
            \<and> reverseProxy s' = Some \<lparr>Director = director u\<rparr>)
      else reverseProxy s' = reverseProxy s)"
  by (auto simp: setupProxy_def split: sum.splits if_splits)

lemma announceReverse_fst: "fst (announceReverse c s) = ReturnServer s"
  by (simp add: announceReverse_def)

text \<open>A server is returned only when every block has handed one on to the next.\<close>

lemma NewServer_D:
  assumes "fst (NewServer env c) = ReturnServer srv"
  obtains s1 s2 s3 s4 where
    "fst (loadAuthFile env c (initServer c)) = ReturnServer s1"
    "fst (addInlineAuth env c s1) = ReturnServer s2"
    "fst (setupKey env c s2) = ReturnServer s3"
    "fst (setupAuthURL env c s3) = ReturnServer s4"
    "fst (setupProxy env c s4) = ReturnServer srv"
  using assms unfolding NewServer_def andThen_ReturnServer announceReverse_fst
  by auto

subsection \<open>The CA certificate\<close>

lemma loadCaCert_ok_irrelevant:
  "fst (loadCaCert (env\<lparr>AppendCertsFromPEM :=
                          \<lambda>pool pem. (fst (AppendCertsFromPEM env pool pem), b)\<rparr>) c pool)
     = fst (loadCaCert env c pool)"
  by (auto simp: loadCaCert_def split: sum.splits prod.splits)

lemma setupAuthURL_ok_irrelevant:
  "fst (setupAuthURL (env\<lparr>AppendCertsFromPEM :=
                            \<lambda>pool pem. (fst (AppendCertsFromPEM env pool pem), b)\<rparr>) c s)
     = fst (setupAuthURL env c s)"
proof -
  let ?env = "env\<lparr>AppendCertsFromPEM :=
                    \<lambda>pool pem. (fst (AppendCertsFromPEM env pool pem), b)\<rparr>"
  let ?pool = "case SystemCertPool env of None \<Rightarrow> [] | Some pool \<Rightarrow> pool"
  have "fst (loadCaCert ?env c ?pool) = fst (loadCaCert env c ?pool)"
    by (rule loadCaCert_ok_irrelevant)
  then show ?thesis
    by (cases "loadCaCert ?env c ?pool"; cases "loadCaCert env c ?pool")
       (auto simp: setupAuthURL_def Let_def split: sum.splits option.splits)
qed

lemma setupAuthURL_unreadable:
  assumes "AuthURL c \<noteq> []" "AuthURLCaCert c \<noteq> []"
    "ReadFile env (AuthURLCaCert c) = Inl err"
  shows "setupAuthURL env c s =
     (Fatalf ''Failed to append %q to RootCAs: %v'' (AuthURLCaCert c) err, [])"
  using assms by (simp add: setupAuthURL_def loadCaCert_def Let_def)

lemma andThen_eq_ReturnServer:
  "andThen r f = (ReturnServer srv, tr) \<longleftrightarrow>
     (\<exists>s0 tr0 tr1. r = (ReturnServer s0, tr0) \<and> f s0 = (ReturnServer srv, tr1)
        \<and> tr = tr0 @ tr1)"
  by (cases r; cases "fst r") (auto simp: andThen_def split: prod.splits startup.splits)

lemma loadAuthFile_tr: "loadAuthFile env c s = (r, tr) \<Longrightarrow> tr = []"
  by (auto simp: loadAuthFile_def split: if_splits prod.splits option.splits)

lemma setupKey_tr: "setupKey env c s = (r, tr) \<Longrightarrow> tr = []"
  by (auto simp: setupKey_def split: sum.splits)

lemma setupProxy_tr:
  "setupProxy env c s = (ReturnServer s', tr) \<Longrightarrow> tr = [] \<and> authURLClient s' = authURLClient s"
  by (auto simp: setupProxy_def split: sum.splits if_splits)

lemma announceReverse_eq:
  "announceReverse c s =
     (ReturnServer s, if Reverse c then [Infof ''Reverse tunnelling enabled'' []] else [])"
  by (simp add: announceReverse_def)

lemma setupAuthURL_readable:
  assumes "AuthURL c \<noteq> []" "AuthURLCaCert c \<noteq> []"
    and "ReadFile env (AuthURLCaCert c) = Inr certs"
    and "setupAuthURL env c s = (ReturnServer s', tr)"
  shows "authURLClient s' = Some \<lparr>RootCAs =
            fst (AppendCertsFromPEM env
                  (case SystemCertPool env of None \<Rightarrow> [] | Some pool \<Rightarrow> pool) certs)\<rparr>
       \<and> tr = (if snd (AppendCertsFromPEM env
                  (case SystemCertPool env of None \<Rightarrow> [] | Some pool \<Rightarrow> pool) certs)
               then [] else [Println ''No certs appended, using system certs only''])"
  using assms
  by (auto simp: setupAuthURL_def loadCaCert_def Let_def split: prod.splits option.splits)

lemma NewServer_trace:
  assumes "NewServer env c = (ReturnServer srv, tr)"
  obtains s3 s4 tr4 where
    "setupAuthURL env c s3 = (ReturnServer s4, tr4)"
    "authURLClient srv = authURLClient s4"
    "tr = tr4 @ (if Reverse c then [Infof ''Reverse tunnelling enabled'' []] else [])"
proof -
  from assms obtain s1 s2 s3 s4 s5 t1 t2 t3 t4 t5 t6 where
    b: "loadAuthFile env c (initServer c) = (ReturnServer s1, t1)"
       "addInlineAuth env c s1 = (ReturnServer s2, t2)"
       "setupKey env c s2 = (ReturnServer s3, t3)"
       "setupAuthURL env c s3 = (ReturnServer s4, t4)"
       "setupProxy env c s4 = (ReturnServer s5, t5)"
       "announceReverse c s5 = (ReturnServer srv, t6)"
       "tr = ((((t1 @ t2) @ t3) @ t4) @ t5) @ t6"
    unfolding NewServer_def andThen_eq_ReturnServer by blast
  have "t1 = []" using b(1) by (rule loadAuthFile_tr)
  moreover have "t2 = []" using b(2) by (simp add: addInlineAuth_eq)
  moreover have "t3 = []" using b(3) by (rule setupKey_tr)
  moreover have "t5 = []" "authURLClient s5 = authURLClient s4"
    using setupProxy_tr[OF b(5)] by simp_all
  moreover have "srv = s5"
    "t6 = (if Reverse c then [Infof ''Reverse tunnelling enabled'' []] else [])"
    using b(6) by (simp_all add: announceReverse_eq)
  ultimately show ?thesis using that[OF b(4)] b(7) by simp
qed

text \<open>
  Claim C7, as the code has it. With a token service URL and a CA certificate path
  configured, a certificate file that cannot be read is fatal: the block ends the process
  with \<^verbatim>\<open>log.Fatalf\<close>, and \<open>NewServer\<close> returns no server. Whether the contents of a
  readable file are appended to the root pool makes no difference to how \<open>NewServer\<close>
  ends: with the flag that \<^verbatim>\<open>AppendCertsFromPEM\<close> returns replaced by any value, the
  outcome, and the server if one is returned, are the same. A server returned after the
  file was read has a client whose root pool is the one \<^verbatim>\<open>AppendCertsFromPEM\<close> left, and
  \<open>NewServer\<close> has printed the line \<^verbatim>\<open>No certs appended, using system certs only\<close> exactly
  once when nothing was appended and not at all otherwise.
\<close>

theorem NewServer_ca_cert:
  assumes "AuthURL c \<noteq> []" and "AuthURLCaCert c \<noteq> []"
  shows "(\<forall>err. ReadFile env (AuthURLCaCert c) = Inl err \<longrightarrow>
            (\<forall>server. setupAuthURL env c server =
               (Fatalf ''Failed to append %q to RootCAs: %v'' (AuthURLCaCert c) err, []))
          \<and> (\<forall>srv. fst (NewServer env c) \<noteq> ReturnServer srv))
       \<and> (\<forall>b. fst (NewServer
                     (env\<lparr>AppendCertsFromPEM :=
                            \<lambda>pool pem. (fst (AppendCertsFromPEM env pool pem), b)\<rparr>) c)
              = fst (NewServer env c))
       \<and> (\<forall>certs srv tr.
             ReadFile env (AuthURLCaCert c) = Inr certs
           \<and> NewServer env c = (ReturnServer srv, tr) \<longrightarrow>
             authURLClient srv = Some \<lparr>RootCAs =
                fst (AppendCertsFromPEM env
                      (case SystemCertPool env of None \<Rightarrow> [] | Some pool \<Rightarrow> pool) certs)\<rparr>
           \<and> count_list tr (Println ''No certs appended, using system certs only'')
               = (if snd (AppendCertsFromPEM env
                      (case SystemCertPool env of None \<Rightarrow> [] | Some pool \<Rightarrow> pool) certs)
                  then 0 else 1))"
proof (intro conjI allI impI)
  fix certs srv tr
  assume h: "ReadFile env (AuthURLCaCert c) = Inr certs
           \<and> NewServer env c = (ReturnServer srv, tr)"
  then obtain s3 s4 tr4 where
    t: "setupAuthURL env c s3 = (ReturnServer s4, tr4)"
       "authURLClient srv = authURLClient s4"
       "tr = tr4 @ (if Reverse c then [Infof ''Reverse tunnelling enabled'' []] else [])"
    using NewServer_trace by blast
  note R = setupAuthURL_readable[OF assms conjunct1[OF h] t(1)]
  show "authURLClient srv = Some \<lparr>RootCAs =
                fst (AppendCertsFromPEM env
                      (case SystemCertPool env of None \<Rightarrow> [] | Some pool \<Rightarrow> pool) certs)\<rparr>"
    using R t(2) by simp
  show "count_list tr (Println ''No certs appended, using system certs only'')
               = (if snd (AppendCertsFromPEM env
                      (case SystemCertPool env of None \<Rightarrow> [] | Some pool \<Rightarrow> pool) certs)
                  then 0 else 1)"
    using R t(3) by simp
next
  fix err server assume r: "ReadFile env (AuthURLCaCert c) = Inl err"
  show "setupAuthURL env c server =
               (Fatalf ''Failed to append %q to RootCAs: %v'' (AuthURLCaCert c) err, [])"
    using assms r by (rule setupAuthURL_unreadable)
next
  fix err srv assume r: "ReadFile env (AuthURLCaCert c) = Inl err"
  show "fst (NewServer env c) \<noteq> ReturnServer srv"
  proof
    assume "fst (NewServer env c) = ReturnServer srv"
    then obtain s3 s4 where "fst (setupAuthURL env c s3) = ReturnServer s4"
      by (rule NewServer_D)
    then show False using setupAuthURL_unreadable[OF assms r, of s3] by simp
  qed
next
  fix b
  let ?env = "env\<lparr>AppendCertsFromPEM :=
                    \<lambda>pool pem. (fst (AppendCertsFromPEM env pool pem), b)\<rparr>"
  have 1: "loadAuthFile ?env c s = loadAuthFile env c s" for s
    by (simp add: loadAuthFile_def)
  have 2: "addInlineAuth ?env c s = addInlineAuth env c s" for s
    by (simp add: addInlineAuth_def)
  have 3: "setupKey ?env c s = setupKey env c s" for s
    by (simp add: setupKey_def split: sum.splits)
  have 5: "setupProxy ?env c s = setupProxy env c s" for s
    by (simp add: setupProxy_def split: sum.splits)
  show "fst (NewServer ?env c) = fst (NewServer env c)"
    unfolding NewServer_def 1 2 3 5
    by (intro fst_andThen_cong refl setupAuthURL_ok_irrelevant)
qed

theorem NewServer_ca_cert_witness:
  "AuthURL test_cfg \<noteq> [] \<and> AuthURLCaCert test_cfg \<noteq> []
   \<and> ReadFile env_nofile (AuthURLCaCert test_cfg) = Inl (errors_New ''no such file'')
   \<and> fst (NewServer env_nofile test_cfg) \<noteq> ReturnServer test_server
   \<and> fst (NewServer (test_env\<lparr>AppendCertsFromPEM :=
             \<lambda>pool pem. (fst (AppendCertsFromPEM test_env pool pem), True)\<rparr>) test_cfg)
       = ReturnServer test_server
   \<and> ReadFile test_env (AuthURLCaCert test_cfg) = Inr ''not a certificate''
   \<and> AppendCertsFromPEM test_env [] ''not a certificate'' = ([], False)
   \<and> authURLClient test_server = Some \<lparr>RootCAs = []\<rparr>
   \<and> count_list (snd (NewServer test_env test_cfg))
        (Println ''No certs appended, using system certs only'') = 1"
proof -
  have 1: "AuthURL test_cfg \<noteq> []" and 2: "AuthURLCaCert test_cfg \<noteq> []"
    by (simp_all add: test_cfg_def)
  have 3: "ReadFile env_nofile (AuthURLCaCert test_cfg) = Inl (errors_New ''no such file'')"
    by (simp add: env_nofile_def test_env_def)
  have 4: "fst (NewServer test_env test_cfg) = ReturnServer test_server"
    by (simp add: fixture_defs startup_defs)
  have 5: "ReadFile test_env (AuthURLCaCert test_cfg) = Inr ''not a certificate''
      \<and> NewServer test_env test_cfg = (ReturnServer test_server, snd (NewServer test_env test_cfg))"
    using 4 by (simp add: test_env_def prod_eq_iff)
  have 6: "SystemCertPool test_env = Some []"
    "AppendCertsFromPEM test_env [] ''not a certificate'' = ([], False)"
    by (simp_all add: test_env_def)
  note T = NewServer_ca_cert[OF 1 2]
  note A = T[of env_nofile, THEN conjunct1, rule_format, OF 3, THEN conjunct2, rule_format,
             of test_server]
  note B = T[of test_env, THEN conjunct2, THEN conjunct1, rule_format, of True]
  note C = T[of test_env, THEN conjunct2, THEN conjunct2, rule_format, OF 5]
  from A B C 1 2 3 4 5 6 show ?thesis by simp
qed

text \<open>
  The claim as the specification words it makes a failure to append fatal too. Here the
  token service URL and the certificate path are configured, the file is read, nothing
  of it is appended to the pool, and \<open>NewServer\<close> prints one line and returns the server.
\<close>

theorem NewServer_append_failure_counterexample:
  "AuthURL test_cfg \<noteq> [] \<and> AuthURLCaCert test_cfg = ''ca.pem''
   \<and> ReadFile test_env ''ca.pem'' = Inr ''not a certificate''
   \<and> AppendCertsFromPEM test_env [] ''not a certificate'' = ([], False)
   \<and> NewServer test_env test_cfg =
       (ReturnServer test_server, [Println ''No certs appended, using system certs only''])"
  by (simp add: fixture_defs startup_defs)

subsection \<open>The reverse proxy\<close>

text \<open>
  Claim C8. With a proxy configured, a server that \<open>NewServer\<close> returns has a reverse
  proxy whose director gives every request the scheme and the host of the parsed proxy
  URL, in the request's URL and in its \<^verbatim>\<open>Host\<close> field, whatever the request carried
  there, and leaves its path, its query, its method and its headers as they were. When
  the parsed proxy URL has an empty host, \<open>NewServer\<close> returns no server.
\<close>

theorem NewServer_proxy:
  assumes "Proxy c \<noteq> []"
  shows "(\<forall>srv. fst (NewServer env c) = ReturnServer srv \<longrightarrow>
           (\<exists>u rp. url_Parse env (Proxy c) = Inr u \<and> Host u \<noteq> []
              \<and> reverseProxy srv = Some rp
              \<and> (\<forall>r. Scheme (ReqURL (Director rp r)) = Scheme u
                     \<and> Host (ReqURL (Director rp r)) = Host u
                     \<and> ReqHost (Director rp r) = Host u
                     \<and> Path (ReqURL (Director rp r)) = Path (ReqURL r)
                     \<and> RawQuery (ReqURL (Director rp r)) = RawQuery (ReqURL r)
                     \<and> Method (Director rp r) = Method r
                     \<and> Header (Director rp r) = Header r)))
       \<and> (\<forall>u. url_Parse env (Proxy c) = Inr u \<and> Host u = [] \<longrightarrow>
            (\<forall>srv. fst (NewServer env c) \<noteq> ReturnServer srv))"
proof (intro conjI allI impI)
  fix srv assume "fst (NewServer env c) = ReturnServer srv"
  then obtain s4 where "fst (setupProxy env c s4) = ReturnServer srv"
    by (rule NewServer_D)
  from setupProxy_D[OF this] assms
  obtain u where u: "url_Parse env (Proxy c) = Inr u" "Host u \<noteq> []"
     "reverseProxy srv = Some \<lparr>Director = director u\<rparr>" by auto
  have "\<forall>r. Scheme (ReqURL (director u r)) = Scheme u
           \<and> Host (ReqURL (director u r)) = Host u
           \<and> ReqHost (director u r) = Host u
           \<and> Path (ReqURL (director u r)) = Path (ReqURL r)
           \<and> RawQuery (ReqURL (director u r)) = RawQuery (ReqURL r)
           \<and> Method (director u r) = Method r
           \<and> Header (director u r) = Header r"
    by (simp add: director_def)
  with u show "\<exists>u rp. url_Parse env (Proxy c) = Inr u \<and> Host u \<noteq> []
              \<and> reverseProxy srv = Some rp
              \<and> (\<forall>r. Scheme (ReqURL (Director rp r)) = Scheme u
                     \<and> Host (ReqURL (Director rp r)) = Host u
                     \<and> ReqHost (Director rp r) = Host u
                     \<and> Path (ReqURL (Director rp r)) = Path (ReqURL r)
                     \<and> RawQuery (ReqURL (Director rp r)) = RawQuery (ReqURL r)
                     \<and> Method (Director rp r) = Method r
                     \<and> Header (Director rp r) = Header r)"
    by (intro exI[of _ u] exI[of _ "\<lparr>Director = director u\<rparr>"]) simp
next
  fix u srv assume h: "url_Parse env (Proxy c) = Inr u \<and> Host u = []"
  show "fst (NewServer env c) \<noteq> ReturnServer srv"
  proof
    assume "fst (NewServer env c) = ReturnServer srv"
    then obtain s4 where "fst (setupProxy env c s4) = ReturnServer srv"
      by (rule NewServer_D)
    from setupProxy_D[OF this] assms h show False by auto
  qed
qed

theorem NewServer_proxy_witness:
  "Proxy test_cfg \<noteq> []
   \<and> fst (NewServer test_env test_cfg) = ReturnServer test_server
   \<and> reverseProxy test_server = Some \<lparr>Director = director backend\<rparr>
   \<and> url_Parse test_env (Proxy test_cfg) = Inr backend
   \<and> director backend test_request =
        \<lparr>Method = ''GET'',
         ReqURL = \<lparr>Scheme = ''https'', Host = ''backend.example:8443'',
                   Path = ''/index.html'', RawQuery = ''q=1''\<rparr>,
         ReqHost = ''backend.example:8443'', Header = [(''Host'', ''evil.example'')]\<rparr>
   \<and> Proxy cfg_nohost \<noteq> []
   \<and> url_Parse test_env (Proxy cfg_nohost)
        = Inr \<lparr>Scheme = ''https'', Host = [], Path = [], RawQuery = []\<rparr>
   \<and> fst (NewServer test_env cfg_nohost) \<noteq> ReturnServer test_server"
proof -
  have 1: "Proxy test_cfg \<noteq> []" "Proxy cfg_nohost \<noteq> []"
    by (simp_all add: test_cfg_def cfg_nohost_def)
  have 2: "fst (NewServer test_env test_cfg) = ReturnServer test_server"
    by (simp add: fixture_defs startup_defs)
  have 3: "reverseProxy test_server = Some \<lparr>Director = director backend\<rparr>"
    by (simp add: test_server_def)
  have 4: "url_Parse test_env (Proxy test_cfg) = Inr backend"
    by (simp add: fixture_defs)
  have 5: "url_Parse test_env (Proxy cfg_nohost)
        = Inr \<lparr>Scheme = ''https'', Host = [], Path = [], RawQuery = []\<rparr>"
    by (simp add: fixture_defs cfg_nohost_def)
  have 6: "Host \<lparr>Scheme = ''https'', Host = [], Path = [], RawQuery = []\<rparr> = []" by simp
  from NewServer_proxy[OF 1(1), of test_env] 2 3 4
  have "Scheme (ReqURL (director backend test_request)) = Scheme backend
      \<and> Host (ReqURL (director backend test_request)) = Host backend
      \<and> ReqHost (director backend test_request) = Host backend
      \<and> Path (ReqURL (director backend test_request)) = Path (ReqURL test_request)
      \<and> RawQuery (ReqURL (director backend test_request)) = RawQuery (ReqURL test_request)
      \<and> Method (director backend test_request) = Method test_request
      \<and> Header (director backend test_request) = Header test_request"
    by fastforce
  then have 7: "director backend test_request =
        \<lparr>Method = ''GET'',
         ReqURL = \<lparr>Scheme = ''https'', Host = ''backend.example:8443'',
                   Path = ''/index.html'', RawQuery = ''q=1''\<rparr>,
         ReqHost = ''backend.example:8443'', Header = [(''Host'', ''evil.example'')]\<rparr>"
    by (simp add: backend_def test_request_def Request.equality URL.equality)
  from NewServer_proxy[OF 1(2), of test_env] 5 6
  have 8: "fst (NewServer test_env cfg_nohost) \<noteq> ReturnServer test_server" by blast
  from 1 2 3 4 5 7 8 show ?thesis by blast
qed

subsection \<open>The inline credential\<close>

text \<open>
  Claim C10. The block for the inline \<^verbatim>\<open>Auth\<close> string never ends \<open>NewServer\<close> and prints
  nothing. The user index of a returned server is the index after the authentication
  file, to which the inline user is added exactly when \<^verbatim>\<open>Auth\<close> is not empty and the name
  parsed from it is not empty; the user added has the parsed name and password and the
  one address pattern \<^verbatim>\<open>UserAllowAll\<close>.
\<close>

theorem NewServer_inline_auth:
  "(\<exists>srv'. addInlineAuth env c server = (ReturnServer srv', []))
   \<and> (\<forall>srv. fst (NewServer env c) = ReturnServer srv \<longrightarrow>
        users srv =
          (let base = (if AuthFile c \<noteq> [] then snd (LoadUsers env NewUsers (AuthFile c))
                       else NewUsers)
           in if Auth c \<noteq> [] \<and> fst (ParseAuth env (Auth c)) \<noteq> []
              then UsersAddUser base
                     \<lparr>Name = fst (ParseAuth env (Auth c)),
                      Pass = snd (ParseAuth env (Auth c)),
                      Addrs = [UserAllowAll env]\<rparr>
              else base))"
proof (intro conjI allI impI)
  show "\<exists>srv'. addInlineAuth env c server = (ReturnServer srv', [])"
    by (simp add: addInlineAuth_eq)
next
  fix srv assume "fst (NewServer env c) = ReturnServer srv"
  then obtain s1 s2 s3 s4 where st:
    "fst (loadAuthFile env c (initServer c)) = ReturnServer s1"
    "fst (addInlineAuth env c s1) = ReturnServer s2"
    "fst (setupKey env c s2) = ReturnServer s3"
    "fst (setupAuthURL env c s3) = ReturnServer s4"
    "fst (setupProxy env c s4) = ReturnServer srv"
    by (rule NewServer_D)
  have u1: "users s1 = (if AuthFile c \<noteq> [] then snd (LoadUsers env NewUsers (AuthFile c))
                       else NewUsers)"
    using loadAuthFile_D[OF st(1)] by (simp add: initServer_def)
  have "users srv = users s2"
    using setupKey_D[OF st(3)] setupAuthURL_D[OF st(4)] setupProxy_D[OF st(5)] by simp
  moreover have "users s2 = (if Auth c \<noteq> [] \<and> fst (ParseAuth env (Auth c)) \<noteq> []
         then UsersAddUser (users s1)
                \<lparr>Name = fst (ParseAuth env (Auth c)), Pass = snd (ParseAuth env (Auth c)),
                 Addrs = [UserAllowAll env]\<rparr>
         else users s1)"
    using st(2) by (auto simp: addInlineAuth_eq)
  ultimately show "users srv =
          (let base = (if AuthFile c \<noteq> [] then snd (LoadUsers env NewUsers (AuthFile c))
                       else NewUsers)
           in if Auth c \<noteq> [] \<and> fst (ParseAuth env (Auth c)) \<noteq> []
              then UsersAddUser base
                     \<lparr>Name = fst (ParseAuth env (Auth c)),
                      Pass = snd (ParseAuth env (Auth c)),
                      Addrs = [UserAllowAll env]\<rparr>
              else base)"
    using u1 by (simp add: Let_def)
qed

theorem NewServer_inline_auth_witness:
  "fst (NewServer test_env test_cfg) = ReturnServer test_server
   \<and> ParseAuth test_env (Auth test_cfg) = (''alice'', ''secret'')
   \<and> Get (users test_server) ''alice''
       = Some \<lparr>Name = ''alice'', Pass = ''secret'', Addrs = [UserAllowAll test_env]\<rparr>
   \<and> Auth cfg_noname \<noteq> []
   \<and> ParseAuth test_env (Auth cfg_noname) = ([], ''secret'')
   \<and> fst (NewServer test_env cfg_noname)
       = ReturnServer (test_server\<lparr>config := cfg_noname, users := NewUsers\<rparr>)"
proof -
  have 1: "fst (NewServer test_env test_cfg) = ReturnServer test_server"
    by (simp add: fixture_defs startup_defs)
  have 2: "ParseAuth test_env (Auth test_cfg) = (''alice'', ''secret'')"
     "ParseAuth test_env (Auth cfg_noname) = ([], ''secret'')"
     "Auth cfg_noname \<noteq> []" "AuthFile test_cfg = []" "Auth test_cfg \<noteq> []"
    by (simp_all add: fixture_defs cfg_noname_def)
  have 3: "fst (NewServer test_env cfg_noname)
       = ReturnServer (test_server\<lparr>config := cfg_noname, users := NewUsers\<rparr>)"
    by (simp add: fixture_defs startup_defs cfg_noname_def)
  from NewServer_inline_auth[of test_env test_cfg] 1 2
  have "users test_server = UsersAddUser NewUsers
      \<lparr>Name = ''alice'', Pass = ''secret'', Addrs = [UserAllowAll test_env]\<rparr>"
    by (simp add: Let_def)
  then have 4: "Get (users test_server) ''alice''
       = Some \<lparr>Name = ''alice'', Pass = ''secret'', Addrs = [UserAllowAll test_env]\<rparr>"
    by (simp add: Get_def UsersAddUser_def Set_def)
  from 1 2 3 4 show ?thesis by blast
qed

end
